theory Spec2Isabelle
  imports Complex_Main "HOL-Library.Log_Nat"
begin

section \<open>Python values that reach the handler\<close>

text \<open>
  The program is one Python module, \<^verbatim>\<open>main.py\<close>: two module globals (\<^verbatim>\<open>model\<close>,
  \<^verbatim>\<open>artifacts\<close>), the loader \<^verbatim>\<open>load_model\<close> that fills them once at import time,
  and the HTTP handler \<^verbatim>\<open>predict_telemetry\<close>.

  A Python float is a binary64 value: a finite value is carried as the rational it
  denotes, with negative zero, the two infinities and NaN (one NaN, its sign and payload
  are not kept) as constructors of their own.
\<close>

datatype pyfloat = Finite rat | NegZero | PosInf | NegInf | NaN

text \<open>
  What \<^verbatim>\<open>request.get_json(silent=True)\<close> can return: the Python image of a JSON
  document, \<^verbatim>\<open>None\<close> included (for a body that is missing, is not JSON, or is the JSON
  \<^verbatim>\<open>null\<close>). A JSON object is a dict with string keys, kept as an association list
  that is read with \<open>map_of\<close>.
\<close>

datatype pyval =
    PNone
  | PBool bool
  | PInt int
  | PFloat pyfloat
  | PStr string
  | PList "pyval list"
  | PDict "(string \<times> pyval) list"

text \<open>The exceptions the module can meet; each one is a value of the model.\<close>

datatype pyerr =
    ValueError
  | TypeError
  | OverflowError
  | AttributeError
  | IndexError
  | KeyError
  | FileNotFoundError
  | OtherException

section \<open>The builtin \<^verbatim>\<open>float()\<close>\<close>

subsection \<open>Characters\<close>

definition is_space :: "char \<Rightarrow> bool" where
  "is_space c = (let n = (of_char c :: nat) in (9 \<le> n \<and> n \<le> 13) \<or> (28 \<le> n \<and> n \<le> 32))"

definition is_digit :: "char \<Rightarrow> bool" where
  "is_digit c = (let n = (of_char c :: nat) in 48 \<le> n \<and> n \<le> 57)"

definition digit_val :: "char \<Rightarrow> int" where
  "digit_val c = int (of_char c) - 48"

definition to_lower :: "char \<Rightarrow> char" where
  "to_lower c = (let n = (of_char c :: nat) in if 65 \<le> n \<and> n \<le> 90 then char_of (n + 32) else c)"

definition strip :: "string \<Rightarrow> string" where
  "strip s = rev (dropWhile is_space (rev (dropWhile is_space s)))"

definition int_of_digits :: "string \<Rightarrow> int" where
  "int_of_digits ds = foldl (\<lambda>a c. 10 * a + digit_val c) 0 ds"

subsection \<open>Rounding a rational to binary64\<close>

definition pow2 :: "int \<Rightarrow> rat" where
  "pow2 k = (if 0 \<le> k then 2 ^ nat k else 1 / 2 ^ nat (- k))"

definition pow10 :: "int \<Rightarrow> rat" where
  "pow10 k = (if 0 \<le> k then 10 ^ nat k else 1 / 10 ^ nat (- k))"

text \<open>\<open>floor_log2 q\<close> is the \<open>e\<close> with \<open>2^e \<le> q < 2^(e+1)\<close>, for a positive \<open>q\<close>.\<close>

definition floor_log2 :: "rat \<Rightarrow> int" where
  "floor_log2 q =
     (let (p, d) = quotient_of q; k = bitlen p - bitlen d
      in if pow2 k \<le> q then k else k - 1)"

definition round_half_even :: "rat \<Rightarrow> int" where
  "round_half_even x =
     (let f = \<lfloor>x\<rfloor>; r = x - of_int f
      in if r < 1 / 2 then f
         else if 1 / 2 < r then f + 1
         else if even f then f else f + 1)"

text \<open>
  The nearest binary64 value of a rational \<open>q \<ge> 0\<close>, ties to even: 53 significant bits,
  the exponent of the last place never below \<open>-1074\<close> (subnormals), and infinity from
  \<open>2^1024 - 2^970\<close> on (the midpoint between the largest finite value and \<open>2^1024\<close>).
\<close>

definition to_double :: "rat \<Rightarrow> pyfloat" where
  "to_double q =
     (if q = 0 then Finite 0
      else if 2 ^ 1024 - 2 ^ 970 \<le> q then PosInf
      else (let e = max (floor_log2 q) (- 1022); u = pow2 (e - 52)
            in Finite (of_int (round_half_even (q / u)) * u)))"

fun fneg :: "pyfloat \<Rightarrow> pyfloat" where
  "fneg (Finite q) = (if q = 0 then NegZero else Finite (- q))"
| "fneg NegZero = Finite 0"
| "fneg PosInf = NegInf"
| "fneg NegInf = PosInf"
| "fneg NaN = NaN"

subsection \<open>\<^verbatim>\<open>float(str)\<close>\<close>

text \<open>
  The grammar of the language reference, on ASCII text:
  \<^verbatim>\<open>digitpart ::= digit (["_"] digit)*\<close>,
  \<^verbatim>\<open>number ::= [digitpart] "." digitpart | digitpart ["."]\<close>,
  \<^verbatim>\<open>exponent ::= ("e" | "E") [sign] digitpart\<close>,
  \<^verbatim>\<open>floatvalue ::= [sign] (number [exponent] | "inf" | "infinity" | "nan")\<close>,
  the words in any letter case, white space around the whole removed first.
\<close>

fun digitpart :: "string \<Rightarrow> bool" where
  "digitpart [] = False"
| "digitpart [c] = is_digit c"
| "digitpart (c # d # cs) =
     (is_digit c \<and> (if d = CHR ''_'' then digitpart cs else digitpart (d # cs)))"

definition digits_of :: "string \<Rightarrow> string" where
  "digits_of s = filter is_digit s"

definition split_at :: "(char \<Rightarrow> bool) \<Rightarrow> string \<Rightarrow> string \<times> string" where
  "split_at P s = (takeWhile (\<lambda>c. \<not> P c) s, dropWhile (\<lambda>c. \<not> P c) s)"

definition exponent :: "string \<Rightarrow> int option" where
  "exponent s =
     (case s of
        [] \<Rightarrow> None
      | c # cs \<Rightarrow>
          if c = CHR ''-'' then (if digitpart cs then Some (- int_of_digits (digits_of cs)) else None)
          else if c = CHR ''+'' then (if digitpart cs then Some (int_of_digits (digits_of cs)) else None)
          else (if digitpart s then Some (int_of_digits (digits_of s)) else None))"

definition number :: "string \<Rightarrow> rat option" where
  "number s =
     (let (ip, fr) = split_at (\<lambda>c. c = CHR ''.'') s
      in if fr = [] then (if digitpart ip then Some (of_int (int_of_digits (digits_of ip))) else None)
         else (let fp = tl fr
               in if (ip = [] \<and> digitpart fp) \<or> (fp = [] \<and> digitpart ip) \<or> (digitpart ip \<and> digitpart fp)
                  then Some (of_int (int_of_digits (digits_of ip @ digits_of fp))
                             * pow10 (- int (length (digits_of fp))))
                  else None))"

definition floatnumber :: "string \<Rightarrow> rat option" where
  "floatnumber s =
     (let (m, ex) = split_at (\<lambda>c. c = CHR ''e'' \<or> c = CHR ''E'') s
      in case number m of
           None \<Rightarrow> None
         | Some q \<Rightarrow>
             if ex = [] then Some q
             else (case exponent (tl ex) of None \<Rightarrow> None | Some k \<Rightarrow> Some (q * pow10 k)))"

definition absfloatvalue :: "string \<Rightarrow> pyfloat option" where
  "absfloatvalue s =
     (let w = map to_lower s
      in if w = ''inf'' \<or> w = ''infinity'' then Some PosInf
         else if w = ''nan'' then Some NaN
         else map_option to_double (floatnumber s))"

definition float_str :: "string \<Rightarrow> pyerr + pyfloat" where
  "float_str s =
     (let t = strip s;
          (neg, u) = (case t of
                        [] \<Rightarrow> (False, [])
                      | c # cs \<Rightarrow> if c = CHR ''-'' then (True, cs)
                                  else if c = CHR ''+'' then (False, cs)
                                  else (False, t))
      in case absfloatvalue u of
           None \<Rightarrow> Inl ValueError
         | Some x \<Rightarrow> Inr (if neg then fneg x else x))"

subsection \<open>\<^verbatim>\<open>float(x)\<close> on the values of a JSON document\<close>

text \<open>
  \<^verbatim>\<open>float\<close> takes a \<^verbatim>\<open>bool\<close> (a subclass of \<^verbatim>\<open>int\<close>), an \<^verbatim>\<open>int\<close> (OverflowError when
  it rounds beyond the largest finite value), a \<^verbatim>\<open>float\<close> and a \<^verbatim>\<open>str\<close> (ValueError when
  it is not a float literal); \<^verbatim>\<open>None\<close>, a list and a dict raise TypeError.
\<close>

definition float_int :: "int \<Rightarrow> pyerr + pyfloat" where
  "float_int n =
     (case to_double (of_int \<bar>n\<bar>) of
        PosInf \<Rightarrow> Inl OverflowError
      | x \<Rightarrow> Inr (if n < 0 then fneg x else x))"

fun float_py :: "pyval \<Rightarrow> pyerr + pyfloat" where
  "float_py PNone = Inl TypeError"
| "float_py (PBool b) = Inr (Finite (if b then 1 else 0))"
| "float_py (PInt n) = float_int n"
| "float_py (PFloat x) = Inr x"
| "float_py (PStr s) = float_str s"
| "float_py (PList xs) = Inl TypeError"
| "float_py (PDict kvs) = Inl TypeError"

section \<open>Module state\<close>

text \<open>
  \<^verbatim>\<open>artifacts\<close> is the descriptor read from \<^verbatim>\<open>model_artifacts.json\<close>; the handler
  reads its two entries \<^verbatim>\<open>'input_features'\<close> and \<^verbatim>\<open>'output_features'\<close>, both lists of
  feature names. The descriptor is taken in that shape.
\<close>

record descriptor =
  input_features :: "string list"
  output_features :: "string list"

text \<open>
  \<^verbatim>\<open>model\<close> is whatever \<^verbatim>\<open>joblib.load\<close> deserialises; the blob is not part of the
  repository. The handler uses two things of it, both taken as they come: its
  \<^verbatim>\<open>predict\<close> method, from a data frame (column names and rows) to a two-dimensional
  array or an exception, and the \<^verbatim>\<open>__round__\<close> of the numbers it predicts, which the
  builtin \<^verbatim>\<open>round(value, ndigits)\<close> calls.
\<close>

type_synonym dataframe = "string list \<times> pyfloat list list"

record 'v regressor =
  predict :: "dataframe \<Rightarrow> pyerr + 'v list list"
  round_value :: "'v \<Rightarrow> nat \<Rightarrow> 'v"

text \<open>The two module globals; \<open>None\<close> is Python's \<^verbatim>\<open>None\<close>.\<close>

record 'v globals =
  model :: "'v regressor option"
  artifacts :: "descriptor option"

definition initial_globals :: "'v globals" where
  "initial_globals = \<lparr>model = None, artifacts = None\<rparr>"

section \<open>\<^verbatim>\<open>load_model\<close>\<close>

text \<open>
  What the two reads of \<^verbatim>\<open>load_model\<close> find on disk: \<^verbatim>\<open>joblib.load(MODEL_FILE)\<close>
  returns a model or raises; opening \<^verbatim>\<open>ARTIFACTS_FILE\<close> and \<^verbatim>\<open>json.load\<close> return the
  descriptor (\<open>None\<close> for a file that holds the JSON \<^verbatim>\<open>null\<close>) or raise.
\<close>

record 'v disk =
  joblib_load :: "pyerr + 'v regressor"
  json_load :: "pyerr + descriptor option"

text \<open>
  The body of the \<^verbatim>\<open>try\<close>: the first assignment is done before the second read is
  tried. The result is the exception raised (\<open>Inl\<close>) or the value returned (\<open>Inr\<close>),
  with the module state at that moment.
\<close>

definition load_model_try :: "'v disk \<Rightarrow> 'v globals \<Rightarrow> (pyerr + bool) \<times> 'v globals" where
  "load_model_try d g =
     (case joblib_load d of
        Inl e \<Rightarrow> (Inl e, g)
      | Inr m \<Rightarrow>
          (let g1 = g\<lparr>model := Some m\<rparr>
           in case json_load d of
                Inl e \<Rightarrow> (Inl e, g1)
              | Inr a \<Rightarrow> (Inr True, g1\<lparr>artifacts := a\<rparr>)))"

text \<open>
  The function with its two \<^verbatim>\<open>except\<close> clauses, FileNotFoundError and then
  Exception: each prints and returns \<^verbatim>\<open>False\<close>. The result type keeps a place for an
  exception that would leave the function.
\<close>

definition load_model :: "'v disk \<Rightarrow> 'v globals \<Rightarrow> (pyerr + bool) \<times> 'v globals" where
  "load_model d g =
     (case load_model_try d g of
        (Inl e, g1) \<Rightarrow> if e = FileNotFoundError then (Inr False, g1) else (Inr False, g1)
      | (Inr b, g1) \<Rightarrow> (Inr b, g1))"

text \<open>The module's last top-level statement: \<^verbatim>\<open>load_model()\<close>, its result dropped.\<close>

definition cold_start :: "'v disk \<Rightarrow> 'v globals" where
  "cold_start d = snd (load_model d initial_globals)"

section \<open>\<^verbatim>\<open>predict_telemetry\<close>\<close>

subsection \<open>Request and response\<close>

text \<open>
  Of the request the handler reads \<^verbatim>\<open>method\<close> (the field \<open>req_method\<close>),
  \<^verbatim>\<open>get_json(silent=True)\<close> and \<^verbatim>\<open>args\<close> (the query parameters, a multi-dict whose
  \<^verbatim>\<open>get\<close> returns the first value of a key).
\<close>

record request =
  req_method :: string
  get_json :: pyval
  args :: "(string \<times> string) list"

text \<open>
  The handler returns a tuple \<^verbatim>\<open>(body, status, headers)\<close>; the body is a string or
  the prediction dict, a dict being kept in insertion order.
\<close>

datatype 'v body = Text string | Json "(string \<times> 'v) list"

record 'v response =
  body :: "'v body"
  status :: nat
  headers :: "(string \<times> string) list"

definition cors_headers :: "(string \<times> string) list" where
  "cors_headers =
     [(''Access-Control-Allow-Origin'', ''*''),
      (''Access-Control-Allow-Methods'', ''POST, GET, OPTIONS''),
      (''Access-Control-Allow-Headers'', ''Content-Type'')]"

subsection \<open>Dicts and substrings\<close>

text \<open>\<^verbatim>\<open>d[k] = v\<close>: an existing key keeps its place, a new key goes last.\<close>

fun dict_set :: "('k \<times> 'a) list \<Rightarrow> 'k \<Rightarrow> 'a \<Rightarrow> ('k \<times> 'a) list" where
  "dict_set [] k v = [(k, v)]"
| "dict_set ((k', v') # d) k v =
     (if k' = k then (k', v) # d else (k', v') # dict_set d k v)"

text \<open>\<^verbatim>\<open>dict(pairs)\<close>: the pairs are stored one after the other.\<close>

definition dict_of :: "('k \<times> 'a) list \<Rightarrow> ('k \<times> 'a) list" where
  "dict_of ps = foldl (\<lambda>d (k, v). dict_set d k v) [] ps"

text \<open>\<^verbatim>\<open>request_data.get(name)\<close>: only a dict has the method.\<close>

definition dict_get :: "pyval \<Rightarrow> string \<Rightarrow> pyerr + pyval" where
  "dict_get d k =
     (case d of
        PDict kvs \<Rightarrow> Inr (case map_of kvs k of None \<Rightarrow> PNone | Some v \<Rightarrow> v)
      | _ \<Rightarrow> Inl AttributeError)"

text \<open>\<^verbatim>\<open>sub in s\<close> on strings.\<close>

fun starts_with :: "string \<Rightarrow> string \<Rightarrow> bool" where
  "starts_with [] s = True"
| "starts_with (c # cs) [] = False"
| "starts_with (c # cs) (d # ds) = (c = d \<and> starts_with cs ds)"

fun str_in :: "string \<Rightarrow> string \<Rightarrow> bool" where
  "str_in sub [] = (sub = [])"
| "str_in sub (c # cs) = (starts_with sub (c # cs) \<or> str_in sub cs)"

subsection \<open>The prediction block\<close>

text \<open>
  \<^verbatim>\<open>pd.DataFrame(rows, columns=cols)\<close> raises ValueError when a row does not have as
  many entries as there are column names.
\<close>

definition DataFrame :: "pyfloat list list \<Rightarrow> string list \<Rightarrow> pyerr + dataframe" where
  "DataFrame rows cols =
     (if list_all (\<lambda>row. length row = length cols) rows then Inr (cols, rows)
      else Inl ValueError)"

text \<open>
  Step 4, the loop over \<^verbatim>\<open>prediction_dict.items()\<close> that stores the rounded value
  back under its key.
\<close>

fun round_items :: "('v \<Rightarrow> nat \<Rightarrow> 'v) \<Rightarrow> (string \<times> 'v) list \<Rightarrow> (string \<times> 'v) list \<Rightarrow> (string \<times> 'v) list" where
  "round_items rnd [] prediction_dict = prediction_dict"
| "round_items rnd ((key, value) # items) prediction_dict =
     round_items rnd items
       (if str_in ''vibration'' key then dict_set prediction_dict key (rnd value 2)
        else if str_in ''pressure'' key \<or> str_in ''flow'' key then dict_set prediction_dict key (rnd value 0)
        else dict_set prediction_dict key (rnd value 1))"

text \<open>Steps 3 and 4: the dict of names and values, rounded.\<close>

definition format_prediction :: "('v \<Rightarrow> nat \<Rightarrow> 'v) \<Rightarrow> string list \<Rightarrow> 'v list \<Rightarrow> (string \<times> 'v) list" where
  "format_prediction rnd names row =
     (let prediction_dict = dict_of (zip names row)
      in round_items rnd prediction_dict prediction_dict)"

text \<open>The body of the second \<^verbatim>\<open>try\<close>, lines 96 to 119; \<open>Inl\<close> is an exception.\<close>

definition prediction :: "'v regressor \<Rightarrow> descriptor \<Rightarrow> pyfloat \<Rightarrow> pyerr + (string \<times> 'v) list" where
  "prediction m a raw_mill_load_val =
     (case DataFrame [[raw_mill_load_val]] (input_features a) of
        Inl e \<Rightarrow> Inl e
      | Inr input_df \<Rightarrow>
          (case predict m input_df of
             Inl e \<Rightarrow> Inl e
           | Inr prediction_values \<Rightarrow>
               (case prediction_values of
                  [] \<Rightarrow> Inl IndexError
                | row # _ \<Rightarrow> Inr (format_prediction (round_value m) (output_features a) row))))"

subsection \<open>The handler\<close>

text \<open>The name between apostrophes, as the f-strings of the messages write it.\<close>

definition quoted :: "string \<Rightarrow> string" where
  "quoted s = [CHR 0x27] @ s @ [CHR 0x27]"

definition respond :: "'v body \<Rightarrow> nat \<Rightarrow> 'v response" where
  "respond b s = \<lparr>body = b, status = s, headers = cors_headers\<rparr>"

text \<open>Lines 71 to 74: the JSON body of a POST, the query parameters of anything else.\<close>

definition request_data :: "request \<Rightarrow> pyval" where
  "request_data r =
     (if req_method r = ''POST'' then get_json r
      else PDict (map (\<lambda>(k, v). (k, PStr v)) (args r)))"

text \<open>
  The handler, return by return. In the first \<^verbatim>\<open>try\<close>, the IndexError of
  \<^verbatim>\<open>artifacts['input_features'][0]\<close>, the AttributeError of \<^verbatim>\<open>.get\<close> and the
  OverflowError of \<^verbatim>\<open>float\<close> reach the clause \<^verbatim>\<open>except Exception\<close>; the ValueError
  and TypeError of \<^verbatim>\<open>float\<close> reach \<^verbatim>\<open>except (ValueError, TypeError)\<close>. The handler
  prints to the log on some paths; the log is not part of the model.
\<close>

definition predict_telemetry :: "'v globals \<Rightarrow> request \<Rightarrow> 'v response" where
  "predict_telemetry g r =
     (if req_method r = ''OPTIONS'' then respond (Text []) 204
      else case (model g, artifacts g) of
        (Some m, Some a) \<Rightarrow>
          (if request_data r = PNone
           then respond (Text ''Bad Request: Missing or invalid JSON payload.'') 400
           else case input_features a of
             [] \<Rightarrow> respond (Text ''Bad Request: Could not parse input.'') 400
           | input_feature_name # _ \<Rightarrow>
               (case dict_get (request_data r) input_feature_name of
                  Inl e \<Rightarrow> respond (Text ''Bad Request: Could not parse input.'') 400
                | Inr raw_mill_load_str \<Rightarrow>
                    if raw_mill_load_str = PNone
                    then respond (Text (''Bad Request: Missing '' @ quoted input_feature_name @ '' parameter.'')) 400
                    else (case float_py raw_mill_load_str of
                            Inl e \<Rightarrow>
                              if e = ValueError \<or> e = TypeError
                              then respond (Text (''Bad Request: Invalid value for '' @ quoted input_feature_name
                                                   @ ''. Must be a number.'')) 400
                              else respond (Text ''Bad Request: Could not parse input.'') 400
                          | Inr raw_mill_load_val \<Rightarrow>
                              (case prediction m a raw_mill_load_val of
                                 Inl e \<Rightarrow> respond (Text ''Internal Server Error: Prediction failed.'') 500
                               | Inr prediction_dict \<Rightarrow> respond (Json prediction_dict) 200))))
      | _ \<Rightarrow> respond (Text ''Internal Server Error: Model not loaded'') 500)"



section \<open>The two ways a number reaches the handler\<close>

text \<open>
  A number written \<open>s\<close> in a query string arrives as the string \<open>s\<close>. Written in a
  JSON body it is decoded first: Python's \<^verbatim>\<open>json\<close> matches
  \<^verbatim>\<open>(-?(?:0|[1-9][0-9]*))(\.[0-9]+)?([eE][-+]?[0-9]+)?\<close>, and makes an \<^verbatim>\<open>int\<close> of
  the text when it has neither fraction nor exponent, and \<^verbatim>\<open>float(text)\<close> otherwise.
\<close>

definition json_int :: "string \<Rightarrow> bool" where
  "json_int s = (s = ''0'' \<or> (s \<noteq> [] \<and> list_all is_digit s \<and> hd s \<noteq> CHR ''0''))"

definition json_exp :: "string \<Rightarrow> bool" where
  "json_exp t =
     (case t of
        [] \<Rightarrow> False
      | c # cs \<Rightarrow> if c = CHR ''+'' \<or> c = CHR ''-'' then cs \<noteq> [] \<and> list_all is_digit cs
                  else list_all is_digit t)"

definition json_frac_exp :: "string \<Rightarrow> bool" where
  "json_frac_exp t =
     (let (fr, ex) = split_at (\<lambda>c. c = CHR ''e'' \<or> c = CHR ''E'') t
      in (fr = [] \<or> (hd fr = CHR ''.'' \<and> tl fr \<noteq> [] \<and> list_all is_digit (tl fr)))
         \<and> (ex = [] \<or> json_exp (tl ex)))"

definition json_number :: "string \<Rightarrow> pyval option" where
  "json_number s =
     (let (neg, u) = (case s of
                        [] \<Rightarrow> (False, [])
                      | c # cs \<Rightarrow> if c = CHR ''-'' then (True, cs) else (False, s));
          (ip, rest) = split_at (\<lambda>c. \<not> is_digit c) u
      in if \<not> json_int ip then None
         else if rest = [] then Some (PInt (if neg then - int_of_digits ip else int_of_digits ip))
         else if json_frac_exp rest
              then (case float_str s of Inl e \<Rightarrow> None | Inr x \<Rightarrow> Some (PFloat x))
              else None)"

text \<open>\<^verbatim>\<open>GET ?name=s\<close> and \<^verbatim>\<open>POST {"name": s}\<close>, for a number written \<open>s\<close>.\<close>

definition get_request :: "string \<Rightarrow> string \<Rightarrow> request" where
  "get_request name s = \<lparr>req_method = ''GET'', get_json = PNone, args = [(name, s)]\<rparr>"

definition post_request :: "string \<Rightarrow> string \<Rightarrow> request" where
  "post_request name s =
     \<lparr>req_method = ''POST'',
      get_json = (case json_number s of None \<Rightarrow> PNone | Some v \<Rightarrow> PDict [(name, v)]),
      args = []\<rparr>"

section \<open>A sample deployment\<close>

text \<open>
  Neither \<^verbatim>\<open>model.joblib\<close> nor \<^verbatim>\<open>model_artifacts.json\<close> is in the repository. The
  theorems below hold for every model and every descriptor; to run them on a concrete
  input, here is one deployment: twelve output names, a model that predicts exact
  decimal numbers (a multiple of the load for each output, and a ValueError for a load
  that is not finite), and rounding to \<open>n\<close> decimal places, ties to even.
\<close>

definition round_decimal :: "rat \<Rightarrow> nat \<Rightarrow> rat" where
  "round_decimal x n = of_int (round_half_even (x * 10 ^ n)) / 10 ^ n"

definition sample_descriptor :: descriptor where
  "sample_descriptor =
     \<lparr>input_features = [''raw_mill_load''],
      output_features =
        [''mill_motor_current'', ''mill_vibration'', ''mill_inlet_pressure'',
         ''mill_outlet_pressure'', ''mill_differential_pressure'', ''mill_inlet_temperature'',
         ''mill_outlet_temperature'', ''fan_motor_current'', ''fan_vibration'',
         ''air_flow'', ''bearing_temperature'', ''mill_load'']\<rparr>"

definition sample_predict :: "dataframe \<Rightarrow> pyerr + rat list list" where
  "sample_predict df =
     (case snd df of
        [[Finite q]] \<Rightarrow> Inr [map (\<lambda>k. q * k / 7) [1, 2, 3, 4, 5, 6, 7, 8, 9, 10, 11, 12]]
      | _ \<Rightarrow> Inl ValueError)"

definition sample_model :: "rat regressor" where
  "sample_model = \<lparr>predict = sample_predict, round_value = round_decimal\<rparr>"

definition sample_globals :: "rat globals" where
  "sample_globals = \<lparr>model = Some sample_model, artifacts = Some sample_descriptor\<rparr>"

text \<open>A disk on which the model is found and the descriptor is not.\<close>

definition disk_without_artifacts :: "rat disk" where
  "disk_without_artifacts = \<lparr>joblib_load = Inr sample_model, json_load = Inl FileNotFoundError\<rparr>"

section \<open>Properties of the helpers\<close>

lemma respond_simps [simp]:
  "body (respond b s) = b" "status (respond b s) = s" "headers (respond b s) = cors_headers"
  by (simp_all add: respond_def)

section \<open>Preflight, the model check and the headers\<close>

text \<open>
  C5. A request whose method is OPTIONS gets status 204, an empty body and the three
  CORS headers, whatever the module state is (loaded or not).
\<close>

theorem options_preflight:
  assumes "req_method r = ''OPTIONS''"
  shows "predict_telemetry g r =
           \<lparr>body = Text '''', status = 204,
            headers = [(''Access-Control-Allow-Origin'', ''*''),
                       (''Access-Control-Allow-Methods'', ''POST, GET, OPTIONS''),
                       (''Access-Control-Allow-Headers'', ''Content-Type'')]\<rparr>"
  using assms by (simp add: predict_telemetry_def respond_def cors_headers_def)

theorem options_preflight_witness:
  "predict_telemetry (initial_globals :: rat globals)
       \<lparr>req_method = ''OPTIONS'', get_json = PNone, args = []\<rparr> =
     \<lparr>body = Text '''', status = 204,
      headers = [(''Access-Control-Allow-Origin'', ''*''),
                 (''Access-Control-Allow-Methods'', ''POST, GET, OPTIONS''),
                 (''Access-Control-Allow-Headers'', ''Content-Type'')]\<rparr>
   \<and> predict_telemetry sample_globals
       \<lparr>req_method = ''OPTIONS'', get_json = PNone, args = []\<rparr> =
     \<lparr>body = Text '''', status = 204,
      headers = [(''Access-Control-Allow-Origin'', ''*''),
                 (''Access-Control-Allow-Methods'', ''POST, GET, OPTIONS''),
                 (''Access-Control-Allow-Headers'', ''Content-Type'')]\<rparr>"
  using options_preflight [of "\<lparr>req_method = ''OPTIONS'', get_json = PNone, args = []\<rparr>" "initial_globals :: rat globals"]
        options_preflight [of "\<lparr>req_method = ''OPTIONS'', get_json = PNone, args = []\<rparr>" sample_globals]
  by simp

text \<open>
  C3. When \<^verbatim>\<open>model\<close> or \<^verbatim>\<open>artifacts\<close> is \<^verbatim>\<open>None\<close>, a request whose method is not
  OPTIONS gets status 500 and the text that the model is not loaded. The answer is the
  same whatever JSON body \<open>j\<close> and query parameters \<open>q\<close> the request carries: the
  payload is not looked at.
\<close>

theorem model_not_loaded:
  assumes "req_method r \<noteq> ''OPTIONS''" and "model g = None \<or> artifacts g = None"
  shows "predict_telemetry g (r\<lparr>get_json := j, args := q\<rparr>) =
           \<lparr>body = Text ''Internal Server Error: Model not loaded'', status = 500,
            headers = cors_headers\<rparr>"
  using assms
  by (auto simp add: predict_telemetry_def respond_def split: option.splits)

theorem model_not_loaded_witness:
  "predict_telemetry (cold_start disk_without_artifacts)
       \<lparr>req_method = ''POST'', get_json = PDict [(''raw_mill_load'', PStr ''120.5'')], args = []\<rparr> =
     \<lparr>body = Text ''Internal Server Error: Model not loaded'', status = 500,
      headers = cors_headers\<rparr>"
  using model_not_loaded [where r = "\<lparr>req_method = ''POST'', get_json = PNone, args = []\<rparr>"
      and g = "cold_start disk_without_artifacts"
      and j = "PDict [(''raw_mill_load'', PStr ''120.5'')]" and q = "[]"]
  by (simp add: cold_start_def load_model_def load_model_try_def disk_without_artifacts_def
      initial_globals_def)

text \<open>
  C6. Every response of the handler, on every path, carries the three CORS headers; its
  status is 204, 200, 400 or 500.
\<close>

theorem cors_on_every_response:
  "headers (predict_telemetry g r) =
     [(''Access-Control-Allow-Origin'', ''*''),
      (''Access-Control-Allow-Methods'', ''POST, GET, OPTIONS''),
      (''Access-Control-Allow-Headers'', ''Content-Type'')]
   \<and> status (predict_telemetry g r) \<in> {204, 200, 400, 500}"
proof -
  have "headers (predict_telemetry g r) = cors_headers"
    unfolding predict_telemetry_def
    by (simp split: option.split list.split sum.split prod.split)
  moreover have "status (predict_telemetry g r) \<in> {204, 200, 400, 500}"
    unfolding predict_telemetry_def
    by (simp split: option.split list.split sum.split prod.split)
  ultimately show ?thesis by (simp add: cors_headers_def)
qed

section \<open>The loader\<close>

text \<open>
  C7. \<^verbatim>\<open>load_model\<close> lets no exception out, from whatever state \<open>g0\<close> it is called.
  When one of its reads raises (the model file or the descriptor missing, malformed or
  not deserialisable), it returns \<^verbatim>\<open>False\<close>, and
  the state it leaves at cold start has \<^verbatim>\<open>model\<close> or \<^verbatim>\<open>artifacts\<close> at \<^verbatim>\<open>None\<close>, also
  when the model was read before the descriptor failed. The answer to a request whose
  method is not OPTIONS is then the 500 response of the model check, whatever the
  request carries.
\<close>

theorem load_failure_leaves_unloaded:
  assumes "isl (joblib_load d) \<or> isl (json_load d)"
  shows "\<not> isl (fst (load_model d g0))
         \<and> fst (load_model d initial_globals) = Inr False
         \<and> (model (cold_start d) = None \<or> artifacts (cold_start d) = None)
         \<and> predict_telemetry (cold_start d) r =
             (if req_method r = ''OPTIONS'' then respond (Text '''') 204
              else respond (Text ''Internal Server Error: Model not loaded'') 500)"
proof -
  have unloaded: "model (cold_start d) = None \<or> artifacts (cold_start d) = None"
    using assms
    by (auto simp add: cold_start_def load_model_def load_model_try_def initial_globals_def
        Let_def split: sum.splits)
  have "\<not> isl (fst (load_model d g0))"
    by (simp add: load_model_def split: prod.split sum.split)
  moreover have "fst (load_model d initial_globals) = Inr False"
    using assms by (auto simp add: load_model_def load_model_try_def Let_def split: sum.splits)
  moreover have "predict_telemetry (cold_start d) r =
      (if req_method r = ''OPTIONS'' then respond (Text '''') 204
       else respond (Text ''Internal Server Error: Model not loaded'') 500)"
    using unloaded by (auto simp add: predict_telemetry_def split: option.splits)
  ultimately show ?thesis using unloaded by simp
qed

theorem load_failure_leaves_unloaded_witness:
  "isl (json_load disk_without_artifacts)
   \<and> fst (load_model disk_without_artifacts initial_globals) = Inr False
   \<and> model (cold_start disk_without_artifacts) = Some sample_model
   \<and> artifacts (cold_start disk_without_artifacts) = None
   \<and> predict_telemetry (cold_start disk_without_artifacts)
        \<lparr>req_method = ''GET'', get_json = PNone, args = [(''raw_mill_load'', ''120.5'')]\<rparr> =
      respond (Text ''Internal Server Error: Model not loaded'') 500"
  using load_failure_leaves_unloaded [of disk_without_artifacts initial_globals
      "\<lparr>req_method = ''GET'', get_json = PNone, args = [(''raw_mill_load'', ''120.5'')]\<rparr>"]
  by (simp add: disk_without_artifacts_def cold_start_def load_model_def load_model_try_def
      initial_globals_def)

section \<open>Determinism and statelessness\<close>




section \<open>Dicts\<close>

lemma keys_dict_set:
  "map fst (dict_set d k v) = (if k \<in> set (map fst d) then map fst d else map fst d @ [k])"
  by (induction d) force+

lemma distinct_dict_set: "distinct (map fst d) \<Longrightarrow> distinct (map fst (dict_set d k v))"
  by (simp add: keys_dict_set)


lemma dict_set_at:
  "k \<notin> set (map fst pre) \<Longrightarrow> dict_set (pre @ (k, v) # post) k x = pre @ (k, x) # post"
  by (induction pre) auto

lemma distinct_foldl_dict_set:
  "distinct (map fst d) \<Longrightarrow> distinct (map fst (foldl (\<lambda>d (k, v). dict_set d k v) d ps))"
  by (induction ps arbitrary: d) (auto simp add: distinct_dict_set)

lemma distinct_dict_of: "distinct (map fst (dict_of ps))"
  by (simp add: dict_of_def distinct_foldl_dict_set)



section \<open>Substrings\<close>

lemma starts_with_iff: "starts_with sub s \<longleftrightarrow> (\<exists>q. s = sub @ q)"
  by (induction sub s rule: starts_with.induct) auto

lemma str_in_iff: "str_in sub s \<longleftrightarrow> (\<exists>p q. s = p @ sub @ q)"
proof (induction s)
  case Nil
  then show ?case by auto
next
  case (Cons c cs)
  show ?case
  proof
    assume "str_in sub (c # cs)"
    then consider "starts_with sub (c # cs)" | "str_in sub cs" by auto
    then show "\<exists>p q. c # cs = p @ sub @ q"
    proof cases
      case 1
      then obtain q where "c # cs = sub @ q" by (auto simp add: starts_with_iff)
      then have "c # cs = [] @ sub @ q" by simp
      then show ?thesis by blast
    next
      case 2
      with Cons.IH obtain p q where "cs = p @ sub @ q" by auto
      then have "c # cs = (c # p) @ sub @ q" by simp
      then show ?thesis by blast
    qed
  next
    assume "\<exists>p q. c # cs = p @ sub @ q"
    then obtain p q where pq: "c # cs = p @ sub @ q" by blast
    show "str_in sub (c # cs)"
    proof (cases p)
      case Nil
      with pq have "starts_with sub (c # cs)" by (auto simp add: starts_with_iff)
      then show ?thesis by simp
    next
      case (Cons a p')
      with pq have "cs = p' @ sub @ q" by simp
      with Cons.IH have "str_in sub cs" by blast
      then show ?thesis by simp
    qed
  qed
qed

section \<open>Rounding\<close>

text \<open>The number of decimal places the loop of step 4 passes to \<^verbatim>\<open>round\<close> for a key.\<close>

lemma round_items_step:
  "round_items rnd ((key, value) # items) d =
     round_items rnd items
       (dict_set d key (rnd value (if str_in ''vibration'' key then 2
                                   else if str_in ''pressure'' key \<or> str_in ''flow'' key then 0
                                   else 1)))"
  by simp

lemma round_items_distinct:
  "distinct (map fst (pre @ items)) \<Longrightarrow>
   round_items rnd items (pre @ items) =
     pre @ map (\<lambda>(key, value).
                  (key, rnd value (if str_in ''vibration'' key then 2
                                   else if str_in ''pressure'' key \<or> str_in ''flow'' key then 0
                                   else 1))) items"
proof (induction items arbitrary: pre)
  case Nil
  then show ?case by simp
next
  case (Cons p items)
  obtain key "value" where p: "p = (key, value)" by (cases p)
  let ?x = "rnd value (if str_in ''vibration'' key then 2
                       else if str_in ''pressure'' key \<or> str_in ''flow'' key then 0 else 1)"
  from Cons.prems p have new: "key \<notin> set (map fst pre)" by auto
  from Cons.prems p have "distinct (map fst ((pre @ [(key, ?x)]) @ items))" by simp
  then have IH: "round_items rnd items ((pre @ [(key, ?x)]) @ items) =
      (pre @ [(key, ?x)]) @ map (\<lambda>(key, value).
                  (key, rnd value (if str_in ''vibration'' key then 2
                                   else if str_in ''pressure'' key \<or> str_in ''flow'' key then 0
                                   else 1))) items"
    by (rule Cons.IH)
  have "round_items rnd (p # items) (pre @ p # items) =
      round_items rnd items (dict_set (pre @ (key, value) # items) key ?x)"
    unfolding p by (rule round_items_step)
  also have "dict_set (pre @ (key, value) # items) key ?x = (pre @ [(key, ?x)]) @ items"
    using new by (simp add: dict_set_at)
  finally show ?case using IH p by simp
qed

lemma format_prediction_map:
  "format_prediction rnd names row =
     map (\<lambda>(key, value).
            (key, rnd value (if str_in ''vibration'' key then 2
                             else if str_in ''pressure'' key \<or> str_in ''flow'' key then 0
                             else 1)))
       (dict_of (zip names row))"
  using round_items_distinct [of "[]" "dict_of (zip names row)" rnd]
  by (simp add: format_prediction_def distinct_dict_of)

text \<open>
  C2. Whatever the rounding function of the predicted numbers is, the formatted dict
  holds, for every key and value of the prediction dict, the value rounded to a number
  of places decided by the first test that succeeds: 2 when the key contains
  \<^verbatim>\<open>vibration\<close>; else 0 when it contains \<^verbatim>\<open>pressure\<close> or \<^verbatim>\<open>flow\<close>; else 1. So a key
  that contains \<^verbatim>\<open>vibration\<close> gets 2 places also when it contains \<^verbatim>\<open>pressure\<close> or
  \<^verbatim>\<open>flow\<close>. With decimal rounding, 3.14159 under \<^verbatim>\<open>motor_vibration_x\<close> becomes 3.14,
  12.6 under \<^verbatim>\<open>outlet_pressure\<close> becomes 13 and 65.34 under \<^verbatim>\<open>bearing_temperature\<close>
  becomes 65.3. The test \<^verbatim>\<open>sub in key\<close> holds exactly when \<open>key\<close> is some text, then
  \<open>sub\<close>, then some text.
\<close>

theorem rounding_by_first_match:
  "format_prediction rnd names row =
     map (\<lambda>(key, value).
            (key, rnd value (if str_in ''vibration'' key then 2
                             else if str_in ''pressure'' key \<or> str_in ''flow'' key then 0
                             else 1)))
       (dict_of (zip names row))
   \<and> (str_in ''vibration'' key \<longrightarrow> format_prediction rnd [key] [v] = [(key, rnd v 2)])
   \<and> (\<not> str_in ''vibration'' key \<and> (str_in ''pressure'' key \<or> str_in ''flow'' key) \<longrightarrow>
        format_prediction rnd [key] [v] = [(key, rnd v 0)])
   \<and> (\<not> str_in ''vibration'' key \<and> \<not> str_in ''pressure'' key \<and> \<not> str_in ''flow'' key \<longrightarrow>
        format_prediction rnd [key] [v] = [(key, rnd v 1)])
   \<and> format_prediction round_decimal
        [''motor_vibration_x'', ''outlet_pressure'', ''bearing_temperature'']
        [314159 / 100000, 126 / 10, 6534 / 100] =
      [(''motor_vibration_x'', 314 / 100), (''outlet_pressure'', 13),
       (''bearing_temperature'', 653 / 10)]
   \<and> (str_in sub s \<longleftrightarrow> (\<exists>p q. s = p @ sub @ q))"
proof -
  have single: "format_prediction rnd [key] [v] =
      [(key, rnd v (if str_in ''vibration'' key then 2
                    else if str_in ''pressure'' key \<or> str_in ''flow'' key then 0 else 1))]"
    by (simp add: format_prediction_map dict_of_def)
  have "format_prediction round_decimal
        [''motor_vibration_x'', ''outlet_pressure'', ''bearing_temperature'']
        [314159 / 100000, 126 / 10, 6534 / 100] =
      [(''motor_vibration_x'', 314 / 100), (''outlet_pressure'', 13),
       (''bearing_temperature'', 653 / 10)]"
    by code_simp
  with single str_in_iff [of sub s] show ?thesis
    by (simp add: format_prediction_map)
qed

theorem rounding_by_first_match_witness:
  "str_in ''vibration'' ''flow_vibration'' \<and> str_in ''flow'' ''flow_vibration''
   \<and> format_prediction round_decimal [''flow_vibration''] [1234567 / 100000] =
       [(''flow_vibration'', 1235 / 100)]
   \<and> \<not> str_in ''vibration'' ''air_flow'' \<and> str_in ''flow'' ''air_flow''
   \<and> format_prediction round_decimal [''air_flow''] [1234567 / 100000] = [(''air_flow'', 12)]"
proof -
  have a: "str_in ''vibration'' ''flow_vibration''" "str_in ''flow'' ''flow_vibration''"
    "\<not> str_in ''vibration'' ''air_flow''" "str_in ''flow'' ''air_flow''"
    by simp_all
  have r: "round_decimal (1234567 / 100000) 2 = 1235 / 100"
    "round_decimal (1234567 / 100000) 0 = 12"
    by code_simp+
  from a r
    rounding_by_first_match [where rnd = round_decimal and key = "''flow_vibration''"
      and v = "1234567 / 100000" and names = "[]" and row = "[]" and sub = "[]" and s = "[]"]
    rounding_by_first_match [where rnd = round_decimal and key = "''air_flow''"
      and v = "1234567 / 100000" and names = "[]" and row = "[]" and sub = "[]" and s = "[]"]
  show ?thesis by simp
qed

section \<open>The successful request\<close>



section \<open>What the coercion accepts and what it rejects\<close>





lemma dict_get_Inr_not_None: "dict_get d k = Inr v \<Longrightarrow> d \<noteq> PNone"
  by (auto simp add: dict_get_def)

text \<open>The handler once the field is read: the state is loaded and the field has a value.\<close>

lemma predict_telemetry_field:
  assumes "model g = Some m" and "artifacts g = Some a"
    and "input_features a = name # names"
    and "req_method r \<noteq> ''OPTIONS''"
    and "dict_get (request_data r) name = Inr v"
  shows "predict_telemetry g r =
     (if v = PNone
      then respond (Text (''Bad Request: Missing '' @ quoted name @ '' parameter.'')) 400
      else case float_py v of
             Inl e \<Rightarrow>
               if e = ValueError \<or> e = TypeError
               then respond (Text (''Bad Request: Invalid value for '' @ quoted name
                                    @ ''. Must be a number.'')) 400
               else respond (Text ''Bad Request: Could not parse input.'') 400
           | Inr x \<Rightarrow>
               (case prediction m a x of
                  Inl e \<Rightarrow> respond (Text ''Internal Server Error: Prediction failed.'') 500
                | Inr d \<Rightarrow> respond (Json d) 200))"
  using assms dict_get_Inr_not_None [OF assms(5)]
  by (simp add: predict_telemetry_def)






section \<open>A number in the query string and in the JSON body\<close>

subsection \<open>\<^verbatim>\<open>float\<close> on a string of digits\<close>

lemma is_digit_chars:
  assumes "is_digit c"
  shows "\<not> is_space c" "c \<noteq> CHR ''-''" "c \<noteq> CHR ''+''" "c \<noteq> CHR ''.''"
    "c \<noteq> CHR ''e''" "c \<noteq> CHR ''E''" "c \<noteq> CHR ''_''" "to_lower c = c"
    "c \<noteq> CHR ''i''" "c \<noteq> CHR ''n''"
  using assms by (auto simp add: is_digit_def is_space_def to_lower_def Let_def)

lemma minus_not_space: "\<not> is_space (CHR ''-'')"
  by (simp add: is_space_def)

lemma strip_id:
  assumes "s \<noteq> []" and "\<not> is_space (hd s)" and "\<not> is_space (last s)"
  shows "strip s = s"
proof -
  have "dropWhile is_space s = s"
    using assms(1,2) by (cases s) simp_all
  moreover have "dropWhile is_space (rev s) = rev s"
    using assms(1,3) by (cases "rev s") (simp_all add: last_rev [symmetric] del: last_rev)
  ultimately show ?thesis by (simp add: strip_def)
qed

lemma digitpart_digits:
  "ds \<noteq> [] \<Longrightarrow> list_all is_digit ds \<Longrightarrow> digitpart ds"
  by (induction ds rule: digitpart.induct) (auto simp add: is_digit_chars)

lemma digits_of_digits: "list_all is_digit ds \<Longrightarrow> digits_of ds = ds"
  by (induction ds) (simp_all add: digits_of_def)

lemma split_at_none: "\<forall>c \<in> set s. \<not> P c \<Longrightarrow> split_at P s = (s, [])"
  by (simp add: split_at_def)

lemma absfloatvalue_digits:
  assumes "ds \<noteq> []" and "list_all is_digit ds"
  shows "absfloatvalue ds = Some (to_double (of_int (int_of_digits ds)))"
proof -
  from assms obtain c cs where ds: "ds = c # cs" and c: "is_digit c"
    by (cases ds) auto
  have all: "\<forall>c \<in> set ds. is_digit c"
    using assms(2) by (simp add: list_all_iff)
  have "to_lower c \<noteq> CHR ''i''" "to_lower c \<noteq> CHR ''n''"
    using c by (simp_all add: is_digit_chars)
  then have words: "map to_lower ds \<noteq> ''inf''" "map to_lower ds \<noteq> ''infinity''"
    "map to_lower ds \<noteq> ''nan''"
    by (auto simp add: ds)
  have "split_at (\<lambda>c. c = CHR ''.'') ds = (ds, [])"
    using all by (intro split_at_none) (auto simp add: is_digit_chars)
  then have "number ds = Some (of_int (int_of_digits ds))"
    using assms by (simp add: number_def digitpart_digits digits_of_digits)
  moreover have "split_at (\<lambda>c. c = CHR ''e'' \<or> c = CHR ''E'') ds = (ds, [])"
    using all by (intro split_at_none) (auto simp add: is_digit_chars)
  ultimately have "floatnumber ds = Some (of_int (int_of_digits ds))"
    by (simp add: floatnumber_def)
  with words show ?thesis by (simp add: absfloatvalue_def)
qed

lemma float_str_digits:
  assumes "ds \<noteq> []" and "list_all is_digit ds"
  shows "float_str ds = Inr (to_double (of_int (int_of_digits ds)))"
    and "float_str (CHR ''-'' # ds) = Inr (fneg (to_double (of_int (int_of_digits ds))))"
proof -
  have all: "\<forall>c \<in> set ds. is_digit c"
    using assms(2) by (simp add: list_all_iff)
  from assms obtain c cs where ds: "ds = c # cs" and c: "is_digit c"
    by (cases ds) auto
  have l: "is_digit (last ds)"
    using assms(1) all by simp
  have "strip ds = ds"
    using assms(1) c l by (intro strip_id) (simp_all add: ds is_digit_chars)
  then show "float_str ds = Inr (to_double (of_int (int_of_digits ds)))"
    using absfloatvalue_digits [OF assms] c
    by (simp add: float_str_def ds is_digit_chars)
  have "strip (CHR ''-'' # ds) = CHR ''-'' # ds"
    using assms(1) l by (intro strip_id) (simp_all add: minus_not_space is_digit_chars)
  then show "float_str (CHR ''-'' # ds) = Inr (fneg (to_double (of_int (int_of_digits ds))))"
    using absfloatvalue_digits [OF assms]
    by (simp add: float_str_def)
qed

subsection \<open>The value of a string of digits\<close>

lemma digit_val_bounds: "is_digit c \<Longrightarrow> 0 \<le> digit_val c"
  by (simp add: is_digit_def digit_val_def Let_def)

lemma digit_val_pos:
  assumes "is_digit c" and "c \<noteq> CHR ''0''"
  shows "0 < digit_val c"
proof -
  have "(of_char c :: nat) \<noteq> of_char (CHR ''0'')"
    using assms(2) by (simp only: of_char_eq_iff not_False_eq_True)
  then have "(of_char c :: nat) \<noteq> 48" by simp
  with assms(1) have "48 < (of_char c :: nat)" by (simp add: is_digit_def Let_def)
  then show ?thesis by (simp add: digit_val_def)
qed

lemma foldl_digits_ge:
  "list_all is_digit ds \<Longrightarrow> 0 \<le> a \<Longrightarrow> a \<le> foldl (\<lambda>a c. 10 * a + digit_val c) a ds"
proof (induction ds arbitrary: a)
  case Nil
  then show ?case by simp
next
  case (Cons c ds)
  then have "0 \<le> digit_val c" by (simp add: digit_val_bounds)
  with Cons.prems have "a \<le> 10 * a + digit_val c" and "0 \<le> 10 * a + digit_val c" by simp_all
  moreover from Cons have "10 * a + digit_val c \<le> foldl (\<lambda>a c. 10 * a + digit_val c) (10 * a + digit_val c) ds"
    using \<open>0 \<le> 10 * a + digit_val c\<close> by simp
  ultimately show ?case by simp
qed

lemma int_of_digits_nonneg: "list_all is_digit ds \<Longrightarrow> 0 \<le> int_of_digits ds"
  using foldl_digits_ge [of ds 0] by (simp add: int_of_digits_def)

lemma int_of_digits_pos:
  assumes "ds \<noteq> []" and "list_all is_digit ds" and "hd ds \<noteq> CHR ''0''"
  shows "0 < int_of_digits ds"
proof -
  from assms obtain c cs where ds: "ds = c # cs" and c: "is_digit c" and z: "c \<noteq> CHR ''0''"
    and cs: "list_all is_digit cs"
    by (cases ds) auto
  have "0 < digit_val c" using c z by (rule digit_val_pos)
  moreover have "digit_val c \<le> foldl (\<lambda>a c. 10 * a + digit_val c) (digit_val c) cs"
    using cs calculation by (intro foldl_digits_ge) simp_all
  ultimately show ?thesis by (simp add: int_of_digits_def ds)
qed

lemma int_of_digits_snoc: "int_of_digits (ds @ [c]) = 10 * int_of_digits ds + digit_val c"
  by (simp add: int_of_digits_def)

lemma int_of_digits_zeros:
  "int_of_digits (c # replicate n (CHR ''0'')) = digit_val c * 10 ^ n"
proof (induction n)
  case 0
  then show ?case by (simp add: int_of_digits_def)
next
  case (Suc n)
  have "c # replicate (Suc n) (CHR ''0'') = (c # replicate n (CHR ''0'')) @ [CHR ''0'']"
    by (simp add: replicate_append_same)
  then have "int_of_digits (c # replicate (Suc n) (CHR ''0'')) =
      10 * int_of_digits (c # replicate n (CHR ''0'')) + digit_val (CHR ''0'')"
    by (simp only: int_of_digits_snoc)
  with Suc show ?case by (simp add: digit_val_def)
qed

subsection \<open>The overflow of \<^verbatim>\<open>float(int)\<close>\<close>

lemma to_double_PosInf_iff: "to_double q = PosInf \<longleftrightarrow> 2 ^ 1024 - 2 ^ 970 \<le> q"
proof -
  have "(0 :: rat) < 2 ^ 1024 - 2 ^ 970" by simp
  then show ?thesis by (auto simp add: to_double_def Let_def)
qed

lemma to_double_small: "q < 2 ^ 1024 - 2 ^ 970 \<Longrightarrow> \<exists>y. to_double q = Finite y"
  by (simp add: to_double_def Let_def)

lemma float_int_small:
  assumes "\<bar>n\<bar> < 2 ^ 1024 - 2 ^ 970"
  shows "float_int n =
           Inr (if n < 0 then fneg (to_double (of_int \<bar>n\<bar>)) else to_double (of_int \<bar>n\<bar>))"
proof -
  have "(of_int \<bar>n\<bar> :: rat) < of_int (2 ^ 1024 - 2 ^ 970)"
    using assms by (simp only: of_int_less_iff)
  also have "(of_int (2 ^ 1024 - 2 ^ 970) :: rat) = 2 ^ 1024 - 2 ^ 970"
    by simp
  finally obtain y where y: "to_double (of_int \<bar>n\<bar>) = Finite y"
    using to_double_small by blast
  show ?thesis unfolding float_int_def y by simp
qed

lemma float_int_big:
  assumes "2 ^ 1024 - 2 ^ 970 \<le> \<bar>n\<bar>"
  shows "float_int n = Inl OverflowError"
proof -
  have "(2 ^ 1024 - 2 ^ 970 :: rat) = of_int (2 ^ 1024 - 2 ^ 970)"
    by simp
  also have "\<dots> \<le> of_int \<bar>n\<bar>"
    using assms by (simp only: of_int_le_iff)
  finally have "to_double (of_int \<bar>n\<bar>) = PosInf"
    by (simp only: to_double_PosInf_iff)
  then show ?thesis by (simp add: float_int_def)
qed

subsection \<open>The JSON decoder on a number\<close>

lemma json_number_cases:
  assumes "json_number s = Some v"
  shows "(\<exists>x. v = PFloat x \<and> float_str s = Inr x)
       \<or> (\<exists>ds. ds \<noteq> [] \<and> list_all is_digit ds \<and> (ds = ''0'' \<or> hd ds \<noteq> CHR ''0'')
              \<and> ((s = ds \<and> v = PInt (int_of_digits ds))
                 \<or> (s = CHR ''-'' # ds \<and> v = PInt (- int_of_digits ds))))"
proof -
  define u where "u = (case s of [] \<Rightarrow> [] | c # cs \<Rightarrow> if c = CHR ''-'' then cs else s)"
  define neg where "neg = (case s of [] \<Rightarrow> False | c # cs \<Rightarrow> c = CHR ''-'')"
  define ip where "ip = takeWhile is_digit u"
  define rest where "rest = dropWhile is_digit u"
  have eq: "json_number s =
      (if \<not> json_int ip then None
       else if rest = [] then Some (PInt (if neg then - int_of_digits ip else int_of_digits ip))
       else if json_frac_exp rest
            then (case float_str s of Inl e \<Rightarrow> None | Inr x \<Rightarrow> Some (PFloat x))
            else None)"
    by (cases s) (simp_all add: json_number_def split_at_def u_def neg_def ip_def rest_def)
  from assms eq have ji: "json_int ip" by (auto split: if_splits)
  show ?thesis
  proof (cases "rest = []")
    case True
    then have "takeWhile is_digit u = u"
      unfolding rest_def by (metis takeWhile_dropWhile_id append_Nil2)
    then have "u = ip"
      unfolding ip_def by (rule sym)
    moreover have "list_all is_digit ip"
      unfolding ip_def by (simp add: list_all_iff) (meson set_takeWhileD)
    moreover from ji have "ip \<noteq> []" and "ip = ''0'' \<or> hd ip \<noteq> CHR ''0''"
      by (auto simp add: json_int_def)
    moreover from assms eq ji True
    have "v = PInt (if neg then - int_of_digits ip else int_of_digits ip)" by simp
    moreover have "s = (if neg then CHR ''-'' # u else u)"
      using \<open>u = ip\<close> \<open>ip \<noteq> []\<close> by (cases s) (auto simp add: u_def neg_def)
    ultimately show ?thesis by (cases neg) auto
  next
    case False
    with assms eq ji show ?thesis
      by (auto split: if_splits sum.splits)
  qed
qed

lemma json_number_float_py:
  assumes "json_number s = Some v" and "s \<noteq> ''-0''"
    and "\<And>n. v = PInt n \<Longrightarrow> \<bar>n\<bar> < 2 ^ 1024 - 2 ^ 970"
  shows "float_py v = float_str s" and "v \<noteq> PNone"
proof -
  from json_number_cases [OF assms(1)] show "v \<noteq> PNone" by auto
  from json_number_cases [OF assms(1)]
  consider x where "v = PFloat x" "float_str s = Inr x"
    | ds where "ds \<noteq> []" "list_all is_digit ds" "s = ds" "v = PInt (int_of_digits ds)"
    | ds where "ds \<noteq> []" "list_all is_digit ds" "ds = ''0'' \<or> hd ds \<noteq> CHR ''0''"
        "s = CHR ''-'' # ds" "v = PInt (- int_of_digits ds)"
    by blast
  then show "float_py v = float_str s"
  proof cases
    case 1
    then show ?thesis by simp
  next
    case 2
    have "0 \<le> int_of_digits ds" using 2(2) by (rule int_of_digits_nonneg)
    moreover have "\<bar>int_of_digits ds\<bar> < 2 ^ 1024 - 2 ^ 970" using 2(4) by (rule assms(3))
    ultimately show ?thesis
      using 2 float_str_digits(1) [OF 2(1,2)] by (simp add: float_int_small)
  next
    case 3
    from 3(3,4) assms(2) have "hd ds \<noteq> CHR ''0''" by auto
    with 3(1,2) have "0 < int_of_digits ds" by (intro int_of_digits_pos)
    moreover have "\<bar>- int_of_digits ds\<bar> < 2 ^ 1024 - 2 ^ 970" using 3(5) by (rule assms(3))
    ultimately show ?thesis
      using 3 float_str_digits(2) [OF 3(1,2)] by (simp add: float_int_small)
  qed
qed

lemma json_number_digits:
  assumes "ds \<noteq> []" and "list_all is_digit ds" and "hd ds \<noteq> CHR ''0''"
  shows "json_number ds = Some (PInt (int_of_digits ds))"
proof -
  from assms obtain c cs where ds: "ds = c # cs" and c: "is_digit c"
    by (cases ds) auto
  have "\<forall>c \<in> set ds. \<not> \<not> is_digit c"
    using assms(2) by (simp add: list_all_iff)
  then have "split_at (\<lambda>c. \<not> is_digit c) ds = (ds, [])"
    by (rule split_at_none)
  moreover have "json_int ds"
    using assms by (simp add: json_int_def)
  moreover have "c \<noteq> CHR ''-''"
    using c by (rule is_digit_chars)
  ultimately show ?thesis
    by (simp add: json_number_def ds)
qed

subsection \<open>The two requests\<close>

lemma request_data_get_request:
  "req_method (get_request name s) \<noteq> ''OPTIONS''"
  "dict_get (request_data (get_request name s)) name = Inr (PStr s)"
  by (simp_all add: get_request_def request_data_def dict_get_def)

lemma request_data_post_request:
  assumes "json_number s = Some v"
  shows "req_method (post_request name s) \<noteq> ''OPTIONS''"
    and "dict_get (request_data (post_request name s)) name = Inr v"
  using assms by (simp_all add: post_request_def request_data_def dict_get_def)

text \<open>
  C8, as the code has it. Let \<open>s\<close> be a JSON number, other than an integer whose
  magnitude is \<open>2^1024 - 2^970\<close> or more (about 1.8e308) and other than the integer
  \<^verbatim>\<open>-0\<close>. Then \<^verbatim>\<open>GET ?raw_mill_load=s\<close> and \<^verbatim>\<open>POST {"raw_mill_load": s}\<close> get the same
  response, whatever the module state is; so it is for 120.5. The two exceptions are
  where \<^verbatim>\<open>float\<close> of the decoded \<^verbatim>\<open>int\<close> and \<^verbatim>\<open>float\<close> of the text part: OverflowError
  against infinity, and zero against negative zero.
\<close>

theorem get_post_same_number:
  assumes "json_number s = Some v" and "s \<noteq> ''-0''"
    and "\<And>n. v = PInt n \<Longrightarrow> \<bar>n\<bar> < 2 ^ 1024 - 2 ^ 970"
  shows "predict_telemetry g (get_request name s) = predict_telemetry g (post_request name s)"
proof -
  have f: "float_py v = float_str s"
    using assms by (rule json_number_float_py(1))
  have v: "v \<noteq> PNone"
    using assms by (rule json_number_float_py(2))
  have "request_data (get_request name s) = PDict [(name, PStr s)]"
    by (simp add: get_request_def request_data_def)
  moreover have "request_data (post_request name s) = PDict [(name, v)]"
    using assms(1) by (simp add: post_request_def request_data_def)
  moreover have "req_method (get_request name s) \<noteq> ''OPTIONS''"
    and "req_method (post_request name s) \<noteq> ''OPTIONS''"
    by (simp_all add: get_request_def post_request_def)
  ultimately show ?thesis
    using f v
    by (simp add: predict_telemetry_def dict_get_def split: option.split list.split)
qed

theorem get_post_same_number_witness:
  "json_number ''120.5'' = Some (PFloat (Finite (241 / 2)))
   \<and> predict_telemetry sample_globals (get_request ''raw_mill_load'' ''120.5'') =
       predict_telemetry sample_globals (post_request ''raw_mill_load'' ''120.5'')
   \<and> json_number ''120'' = Some (PInt 120)
   \<and> predict_telemetry sample_globals (get_request ''raw_mill_load'' ''120'') =
       predict_telemetry sample_globals (post_request ''raw_mill_load'' ''120'')"
proof -
  have a: "json_number ''120.5'' = Some (PFloat (Finite (241 / 2)))"
    by code_simp
  have b: "json_number ''120'' = Some (PInt 120)"
    by code_simp
  have a2: "''120.5'' \<noteq> ''-0''" and b2: "''120'' \<noteq> ''-0''"
    by simp_all
  have a3: "\<And>n. PFloat (Finite (241 / 2)) = PInt n \<Longrightarrow> \<bar>n\<bar> < 2 ^ 1024 - 2 ^ 970"
    by simp
  have b3: "\<And>n. PInt 120 = PInt n \<Longrightarrow> \<bar>n\<bar> < 2 ^ 1024 - 2 ^ 970"
    by simp
  from a b get_post_same_number [OF a a2 a3, of sample_globals "''raw_mill_load''"]
    get_post_same_number [OF b b2 b3, of sample_globals "''raw_mill_load''"]
  show ?thesis by simp
qed

text \<open>
  The integer \<open>10^309\<close>, written with its 310 digits, is a JSON number. In the query
  string it is a float literal, \<^verbatim>\<open>float\<close> makes infinity of it and the sample model
  refuses to predict: 500. In the JSON body it is decoded to an \<^verbatim>\<open>int\<close>, \<^verbatim>\<open>float\<close> raises
  OverflowError and the handler answers 400.
\<close>

theorem get_post_differ_on_big_integer:
  "json_number (CHR ''1'' # replicate 309 (CHR ''0'')) = Some (PInt (10 ^ 309))
   \<and> predict_telemetry sample_globals
        (get_request ''raw_mill_load'' (CHR ''1'' # replicate 309 (CHR ''0''))) =
      respond (Text ''Internal Server Error: Prediction failed.'') 500
   \<and> predict_telemetry sample_globals
        (post_request ''raw_mill_load'' (CHR ''1'' # replicate 309 (CHR ''0''))) =
      respond (Text ''Bad Request: Could not parse input.'') 400"
proof -
  let ?s = "CHR ''1'' # replicate 309 (CHR ''0'')"
  have d1: "?s \<noteq> []" and d2: "list_all is_digit ?s" and d3: "hd ?s \<noteq> CHR ''0''"
    by (simp_all add: list_all_iff is_digit_def)
  have val: "int_of_digits ?s = 10 ^ 309"
    by (simp add: int_of_digits_zeros digit_val_def)
  have j: "json_number ?s = Some (PInt (10 ^ 309))"
    using json_number_digits [OF d1 d2 d3] val by simp
  have big: "(2 ^ 1024 - 2 ^ 970 :: int) \<le> \<bar>10 ^ 309\<bar>"
    by simp
  have "(2 ^ 1024 - 2 ^ 970 :: rat) \<le> of_int (10 ^ 309)"
    by simp
  then have "to_double (of_int (10 ^ 309)) = PosInf"
    by (simp only: to_double_PosInf_iff)
  then have fs: "float_py (PStr ?s) = Inr PosInf"
    using float_str_digits(1) [OF d1 d2] val by simp
  have fi: "float_py (PInt (10 ^ 309)) = Inl OverflowError"
    using float_int_big [OF big] by simp
  have h1: "model sample_globals = Some sample_model"
    and h2: "artifacts sample_globals = Some sample_descriptor"
    by (simp_all add: sample_globals_def)
  have h3: "input_features sample_descriptor = ''raw_mill_load'' # []"
    by (simp add: sample_descriptor_def)
  have p: "prediction sample_model sample_descriptor PosInf = Inl ValueError"
    by (simp add: prediction_def DataFrame_def sample_descriptor_def sample_model_def
        sample_predict_def)
  have "predict_telemetry sample_globals (get_request ''raw_mill_load'' ?s) =
      respond (Text ''Internal Server Error: Prediction failed.'') 500"
    using predict_telemetry_field [OF h1 h2 h3 request_data_get_request] fs p
    by simp
  moreover have "predict_telemetry sample_globals (post_request ''raw_mill_load'' ?s) =
      respond (Text ''Bad Request: Could not parse input.'') 400"
    using predict_telemetry_field [OF h1 h2 h3 request_data_post_request [OF j]] fi
    by simp
  ultimately show ?thesis using j by simp
qed

end
